theory Spec2Isabelle
  imports Main "HOL-Library.AList" "HOL-Library.Sublist"
begin

section \<open>Python values, dictionaries and exceptions\<close>

text \<open>
  The values that the application stores in a request dictionary and in the metadata
  dictionary: \<open>None\<close>, booleans and text. Text is a list of characters; byte strings
  (file contents, object bodies) are lists of characters as well.
\<close>

datatype pyval = PNone | PBool bool | PStr string

text \<open>Python truthiness, as used by \<open>not x\<close> and \<open>if x\<close>.\<close>

fun truthy :: "pyval \<Rightarrow> bool" where
  "truthy PNone = False"
| "truthy (PBool b) = b"
| "truthy (PStr s) = (s \<noteq> [])"


text \<open>
  A Python \<open>dict\<close> with string keys keeps its keys in insertion order; assigning to a key
  that is present replaces the value in place, assigning to a new key appends it. That is
  \<open>AList.update\<close> on an association list.
\<close>

type_synonym pydict = "(string \<times> pyval) list"

datatype exn = KeyError string | TypeError | OSError

text \<open>\<open>d[k]\<close> raises \<open>KeyError\<close> when the key is missing.\<close>

definition getitem :: "pydict \<Rightarrow> string \<Rightarrow> exn + pyval" where
  "getitem d k = (case map_of d k of None \<Rightarrow> Inl (KeyError k) | Some v \<Rightarrow> Inr v)"

text \<open>\<open>for key, value in kwargs.items(): d[key] = value\<close>\<close>

fun setitems :: "pydict \<Rightarrow> (string \<times> pyval) list \<Rightarrow> pydict" where
  "setitems d [] = d"
| "setitems d ((key, v) # kwargs) = setitems (AList.update key v d) kwargs"

section \<open>The state the program acts on\<close>

text \<open>
  \<open>requests\<close> is the dictionary of \<open>RequestManager\<close>; \<open>files\<close> is the local file system
  (path to content) and \<open>locked\<close> the paths whose removal the operating system refuses
  (\<open>os.remove\<close> raises there); \<open>objects\<close> is the remote object store, addressed by
  namespace, bucket and object name.
\<close>

record world =
  requests :: "string \<rightharpoonup> pydict"
  files :: "string \<rightharpoonup> string"
  locked :: "string set"
  objects :: "string \<times> string \<times> string \<rightharpoonup> string"

section \<open>utils/request\_manager.py\<close>

text \<open>
  \<open>create_request\<close>: the identifier is \<open>str(uuid.uuid4())\<close>, a random draw; the draw is
  an argument of the model. The assignment \<open>self.requests[request_id] = {...}\<close> stores
  the new dictionary under that key, whatever was there.
\<close>

definition new_request :: pydict where
  "new_request =
     [(''status'', PStr ''created''),
      (''temp_path'', PNone),
      (''cloud_path'', PNone),
      (''llm_description'', PNone),
      (''user_feedback'', PNone),
      (''user_note'', PNone)]"

definition create_request :: "world \<Rightarrow> string \<Rightarrow> world \<times> string" where
  "create_request w uuid4 =
     (let request_id = uuid4
      in (w\<lparr>requests := (requests w)(request_id \<mapsto> new_request)\<rparr>, request_id))"

definition update_request :: "world \<Rightarrow> string \<Rightarrow> (string \<times> pyval) list \<Rightarrow> world \<times> bool" where
  "update_request w request_id kwargs =
     (case requests w request_id of
        None \<Rightarrow> (w, False)
      | Some d \<Rightarrow> (w\<lparr>requests := (requests w)(request_id \<mapsto> setitems d kwargs)\<rparr>, True))"

definition get_request :: "world \<Rightarrow> string \<Rightarrow> pydict option" where
  "get_request w request_id = requests w request_id"

text \<open>
  \<open>clean_temp_file\<close>. \<open>not request\<close> holds for \<open>None\<close> and for an empty dictionary;
  \<open>request['temp_path']\<close> is read before the \<open>try\<close>, so a missing key raises. Inside the
  \<open>try\<close>, \<open>os.path.exists\<close> answers for the path and \<open>os.remove\<close> either removes the
  file or raises, which the \<open>except\<close> turns into \<open>False\<close>. The only truthy value that is
  not text is \<open>True\<close>: \<open>os.path.exists(True)\<close> asks for file descriptor 1, the standard
  output of the process, and \<open>os.remove(True)\<close> raises \<open>TypeError\<close>, caught as well.
\<close>

definition clean_temp_file :: "world \<Rightarrow> string \<Rightarrow> world \<times> (exn + bool)" where
  "clean_temp_file w request_id =
     (case get_request w request_id of
        None \<Rightarrow> (w, Inr False)
      | Some request \<Rightarrow>
          if request = [] then (w, Inr False)
          else (case getitem request ''temp_path'' of
                  Inl e \<Rightarrow> (w, Inl e)
                | Inr tp \<Rightarrow>
                    if \<not> truthy tp then (w, Inr False)
                    else (case tp of
                            PStr temp_path \<Rightarrow>
                              if temp_path \<in> dom (files w) then
                                (if temp_path \<in> locked w then (w, Inr False)
                                 else (w\<lparr>files := (files w)(temp_path := None)\<rparr>, Inr True))
                              else (w, Inr True)
                          | _ \<Rightarrow> (w, Inr False))))"

section \<open>utils/oracle\_storage.py\<close>

text \<open>
  The fields of \<open>OracleCloudStorage\<close> that the two write operations use. Every
  \<open>put_object\<close> call addresses \<open>self.namespace\<close> and \<open>self.bucket_name\<close>.
\<close>

record oracle_cloud_storage =
  namespace :: string
  bucket_name :: string

text \<open>\<open>Path(file_path).name\<close>: the last component of a path, empty components and \<open>.\<close> dropped.\<close>

fun split_slash :: "string \<Rightarrow> string list" where
  "split_slash [] = [[]]"
| "split_slash (c # cs) =
     (if c = CHR ''/'' then [] # split_slash cs
      else (case split_slash cs of [] \<Rightarrow> [[c]] | x # xs \<Rightarrow> (c # x) # xs))"

definition path_name :: "string \<Rightarrow> string" where
  "path_name p =
     (case rev (filter (\<lambda>x. x \<noteq> [] \<and> x \<noteq> ''.'') (split_slash p)) of
        [] \<Rightarrow> []
      | x # _ \<Rightarrow> x)"







text \<open>
  \<open>upload_image\<close>: \<open>open(file_path, 'rb')\<close> raises when the file is missing and
  \<open>put_object\<close> raises when the remote call fails (\<open>put_ok\<close> is the outcome of that
  call); the \<open>except\<close> turns both into \<open>None\<close>.
\<close>

definition upload_image ::
  "oracle_cloud_storage \<Rightarrow> world \<Rightarrow> bool \<Rightarrow> string \<Rightarrow> string option \<Rightarrow> world \<times> string option" where
  "upload_image self w put_ok file_path object_name =
     (let object_name =
            (case object_name of
               None \<Rightarrow> path_name file_path
             | Some n \<Rightarrow> if n = [] then path_name file_path else n)
      in case files w file_path of
           None \<Rightarrow> (w, None)
         | Some file_data \<Rightarrow>
             if \<not> put_ok then (w, None)
             else (w\<lparr>objects :=
                      (objects w)((namespace self, bucket_name self, object_name) \<mapsto> file_data)\<rparr>,
                   Some object_name))"


section \<open>utils/llm\_service.py\<close>

record llm_service =
  api_url :: string
  api_key :: string

text \<open>The constructor reads two environment variables, each with a default.\<close>

definition getenv :: "(string \<rightharpoonup> string) \<Rightarrow> string \<Rightarrow> string \<Rightarrow> string" where
  "getenv environ name dflt = (case environ name of None \<Rightarrow> dflt | Some v \<Rightarrow> v)"

definition LLMService :: "(string \<rightharpoonup> string) \<Rightarrow> llm_service" where
  "LLMService environ =
     \<lparr>api_url = getenv environ ''LLM_API_URL'' ''https://api.example.com/analyze'',
      api_key = getenv environ ''LLM_API_KEY'' []\<rparr>"

text \<open>The request that \<open>analyze_image\<close> posts: a multipart form and the headers.\<close>

datatype form_value =
    Text string
  | FilePart string string string

record http_request =
  url :: string
  headers :: "(string \<times> string) list"
  form :: "(string \<times> form_value) list"

text \<open>
  What comes back: no response at all (the post raises), or a status with a body that
  is not JSON, is JSON but not an object, or is a JSON object.
\<close>

datatype json_body = NotJson | JsonOther | JsonObject pydict

datatype http_outcome = ConnectionError | Response nat json_body

definition prompt :: string where
  "prompt = ''Describe the uploaded image in full detail, applying your expertise as a highly scrupulous image analysis agent. Carefully observe and report every visible element, no matter how small, and provide a thorough, context-aware description. Analyze the relationships, interactions, and possible intentions of objects and subjects in the image. Ensure your description is precise, comprehensive, and avoids assumptions not supported by the image content.''"

definition system_prompt :: string where
  "system_prompt = ''You are an expert image analysis agent. Your task is to provide extremely detailed, accurate, and context-aware descriptions of images. You never miss any detail, no matter how small, and you always strive to understand and explain the context, relationships, and concepts present in the image. Your analysis should be thorough, objective, and insightful, covering not only visible objects but also their arrangement, interactions, possible intentions, emotions, and any relevant background information. Always avoid assumptions not supported by the image, and ensure your description is clear, precise, and comprehensive.''"

text \<open>\<open>os.path.basename\<close>: what follows the last slash.\<close>

definition basename :: "string \<Rightarrow> string" where
  "basename p = rev (takeWhile (\<lambda>c. c \<noteq> CHR ''/'') (rev p))"

text \<open>The form and headers built by \<open>analyze_image\<close> for a file with the given content.\<close>

definition analyze_image_request :: "llm_service \<Rightarrow> string \<Rightarrow> string \<Rightarrow> http_request" where
  "analyze_image_request self image_path content =
     \<lparr>url = api_url self,
      headers = [(''X-API-Key'', api_key self)],
      form = [(''prompt'', Text prompt),
              (''system_prompt'', Text system_prompt),
              (''max_tokens'', Text ''4000''),
              (''temperature'', Text ''0.5''),
              (''images'', FilePart content (basename image_path) ''image/png'')]\<rparr>"

text \<open>\<open>result.get('output', '')\<close>\<close>

definition dict_get :: "pydict \<Rightarrow> string \<Rightarrow> pyval \<Rightarrow> pyval" where
  "dict_get d k dflt = (case map_of d k of None \<Rightarrow> dflt | Some v \<Rightarrow> v)"

text \<open>
  \<open>analyze_image\<close>: the whole body is inside one \<open>try\<close>. Opening a missing file, a
  failing post, a body that is not JSON and a JSON body without a \<open>get\<close> method all
  raise and give \<open>None\<close>; a status other than 200 gives \<open>None\<close>. \<open>server\<close> is the
  remote end: what it answers to a request.
\<close>

definition analyze_image ::
  "llm_service \<Rightarrow> world \<Rightarrow> (http_request \<Rightarrow> http_outcome) \<Rightarrow> string \<Rightarrow> pyval" where
  "analyze_image self w server image_path =
     (case files w image_path of
        None \<Rightarrow> PNone
      | Some content \<Rightarrow>
          (case server (analyze_image_request self image_path content) of
             ConnectionError \<Rightarrow> PNone
           | Response status body \<Rightarrow>
               if status = 200 then
                 (case body of
                    NotJson \<Rightarrow> PNone
                  | JsonOther \<Rightarrow> PNone
                  | JsonObject result \<Rightarrow> dict_get result ''output'' (PStr []))
               else PNone))"

section \<open>app.py\<close>

text \<open>
  The module-level objects of the application: the two service clients and \<open>TEMP_DIR\<close>.
\<close>

record app =
  oracle_storage :: oracle_cloud_storage
  llm :: llm_service
  temp_dir :: string

text \<open>
  What one call meets outside the program: the identifier drawn by \<open>uuid.uuid4()\<close>, the
  clock (\<open>datetime.now()\<close> formatted by \<open>strftime\<close> and by \<open>isoformat\<close>), whether
  \<open>image.save\<close> succeeds, whether the \<open>put_object\<close> call succeeds, and the inference
  server.
\<close>

record env =
  uuid4 :: string
  strftime_now :: string
  isoformat_now :: string
  save_ok :: bool
  put_ok :: bool
  server :: "http_request \<Rightarrow> http_outcome"

datatype 'a outcome = Return 'a | Raise exn

text \<open>
  \<open>process_image\<close>, lines 47 to 65: create the record, save the image under
  \<open>TEMP_DIR / f"{timestamp}_{request_id}.jpg"\<close>, record the path. \<open>image.save\<close> is not
  inside a \<open>try\<close>: when it raises, the exception leaves \<open>process_image\<close>. The
  image is the content that \<open>image.save\<close> writes.
\<close>

definition receive_image ::
  "app \<Rightarrow> env \<Rightarrow> world \<Rightarrow> string \<Rightarrow> world \<times> (exn + string \<times> string \<times> string)" where
  "receive_image a e w picture =
     (let (w1, request_id) = create_request w (uuid4 e);
          timestamp = strftime_now e;
          new_filename = timestamp @ ''_'' @ request_id @ ''.jpg'';
          temp_path = temp_dir a @ ''/'' @ new_filename
      in if \<not> save_ok e then (w1, Inl OSError)
         else
           (let w2 = w1\<lparr>files := (files w1)(temp_path \<mapsto> picture)\<rparr>;
                (w3, _) = update_request w2 request_id
                            [(''status'', PStr ''image_received''),
                             (''temp_path'', PStr temp_path)]
            in (w3, Inr (request_id, new_filename, temp_path))))"

text \<open>
  Lines 67 to 82: upload, and on success record the object name. \<open>not object_name\<close>
  holds for \<open>None\<close> and for the empty string.
\<close>

definition upload_step ::
  "app \<Rightarrow> env \<Rightarrow> world \<Rightarrow> string \<Rightarrow> string \<Rightarrow> string \<Rightarrow> world \<times> string option" where
  "upload_step a e w request_id new_filename temp_path =
     (let (w1, object_name) =
            upload_image (oracle_storage a) w (put_ok e) temp_path (Some new_filename)
      in case object_name of
           None \<Rightarrow> (w1, None)
         | Some n \<Rightarrow>
             if n = [] then (w1, None)
             else
               (let (w2, _) = update_request w1 request_id
                                [(''status'', PStr ''uploaded_to_cloud''),
                                 (''cloud_path'', PStr n)]
                in (w2, Some n)))"

text \<open>
  Lines 84 to 102: ask for the description. The log line slices \<open>description[:50]\<close>,
  which raises \<open>TypeError\<close> for a value that is truthy but not text.
\<close>

definition analyze_step ::
  "app \<Rightarrow> env \<Rightarrow> world \<Rightarrow> string \<Rightarrow> string \<Rightarrow> world \<times> (pyval \<times> pyval) outcome" where
  "analyze_step a e w request_id temp_path =
     (let description = analyze_image (llm a) w (server e) temp_path
      in if \<not> truthy description then (w, Return (PNone, PStr ''Failed to analyze image.''))
         else (case description of
                 PStr _ \<Rightarrow>
                   (let (w1, _) = update_request w request_id
                                    [(''status'', PStr ''analyzed''),
                                     (''llm_description'', description)]
                    in (w1, Return (PStr request_id, description)))
               | _ \<Rightarrow> (w, Raise TypeError)))"

definition process_image ::
  "app \<Rightarrow> env \<Rightarrow> world \<Rightarrow> string option \<Rightarrow> world \<times> (pyval \<times> pyval) outcome" where
  "process_image a e w img =
     (case img of
        None \<Rightarrow> (w, Return (PNone, PStr ''Please upload an image or take a photo.''))
      | Some picture \<Rightarrow>
          (case receive_image a e w picture of
             (w1, Inl ex) \<Rightarrow> (w1, Raise ex)
           | (w1, Inr (request_id, new_filename, temp_path)) \<Rightarrow>
               (case upload_step a e w1 request_id new_filename temp_path of
                  (w2, None) \<Rightarrow>
                    (w2, Return (PNone, PStr ''Failed to upload image to cloud storage.''))
                | (w2, Some object_name) \<Rightarrow> analyze_step a e w2 request_id temp_path)))"




section \<open>Reading the metadata back\<close>









section \<open>Sample states\<close>

text \<open>
  \<open>world0\<close> is the state at start-up: \<open>RequestManager.__init__\<close> sets \<open>self.requests = {}\<close>.
  \<open>world1\<close> is a state with one request whose image has been saved locally.
\<close>

definition world0 :: world where
  "world0 = \<lparr>requests = Map.empty, files = Map.empty, locked = {}, objects = Map.empty\<rparr>"

definition request1 :: pydict where
  "request1 =
     [(''status'', PStr ''image_received''),
      (''temp_path'', PStr ''/srv/temp/20250101_120000_r1.jpg''),
      (''cloud_path'', PNone),
      (''llm_description'', PNone),
      (''user_feedback'', PNone),
      (''user_note'', PNone)]"

definition world1 :: world where
  "world1 = \<lparr>requests = [''r1'' \<mapsto> request1], files = [''/srv/temp/20250101_120000_r1.jpg'' \<mapsto> ''JPEG''],
              locked = {}, objects = Map.empty\<rparr>"

text \<open>
  The application objects and what a call can meet outside: storage that refuses the
  upload, an inference server that answers 503, one that answers 200 without the
  \<open>output\<close> field, and one that answers with a description.
\<close>

definition app0 :: app where
  "app0 = \<lparr>oracle_storage = \<lparr>namespace = ''ns'', bucket_name = ''images''\<rparr>,
            llm = LLMService Map.empty,
            temp_dir = ''/srv/temp''\<rparr>"

definition env_storage_down :: env where
  "env_storage_down =
     \<lparr>uuid4 = ''r1'', strftime_now = ''20250101_120000'',
      isoformat_now = ''2025-01-01T12:00:00.123456'',
      save_ok = True, put_ok = False, server = (\<lambda>_. ConnectionError)\<rparr>"

definition env_llm_down :: env where
  "env_llm_down = env_storage_down\<lparr>put_ok := True, server := (\<lambda>_. Response 503 NotJson)\<rparr>"

definition env_no_output :: env where
  "env_no_output =
     env_storage_down\<lparr>put_ok := True,
                       server := (\<lambda>_. Response 200 (JsonObject [(''detail'', PStr ''a cat'')]))\<rparr>"

definition env_ok :: env where
  "env_ok =
     env_storage_down\<lparr>put_ok := True,
                       server := (\<lambda>_. Response 200 (JsonObject [(''output'', PStr ''a cat'')]))\<rparr>"

text \<open>
  The states of one submission after the upload (\<open>world2\<close>) and after the
  description has arrived (\<open>world3\<close>).
\<close>

definition request2 :: pydict where
  "request2 =
     [(''status'', PStr ''uploaded_to_cloud''),
      (''temp_path'', PStr ''/srv/temp/20250101_120000_r1.jpg''),
      (''cloud_path'', PStr ''20250101_120000_r1.jpg''),
      (''llm_description'', PNone),
      (''user_feedback'', PNone),
      (''user_note'', PNone)]"

definition world2 :: world where
  "world2 = \<lparr>requests = [''r1'' \<mapsto> request2],
              files = [''/srv/temp/20250101_120000_r1.jpg'' \<mapsto> ''JPEG''],
              locked = {},
              objects = [(''ns'', ''images'', ''20250101_120000_r1.jpg'') \<mapsto> ''JPEG'']\<rparr>"

definition request3 :: pydict where
  "request3 =
     [(''status'', PStr ''analyzed''),
      (''temp_path'', PStr ''/srv/temp/20250101_120000_r1.jpg''),
      (''cloud_path'', PStr ''20250101_120000_r1.jpg''),
      (''llm_description'', PStr ''a cat''),
      (''user_feedback'', PNone),
      (''user_note'', PNone)]"

definition world3 :: world where
  "world3 = world2\<lparr>requests := [''r1'' \<mapsto> request3]\<rparr>"







section \<open>Properties of the request manager\<close>

lemma map_of_setitems:
  "k \<notin> fst ` set kwargs \<Longrightarrow> map_of (setitems d kwargs) k = map_of d k"
  by (induction d kwargs rule: setitems.induct) (auto simp: update_conv')

lemma getitem_nonempty: "getitem d k = Inr v \<Longrightarrow> d \<noteq> []"
  by (auto simp: getitem_def)

lemma requests_world1: "requests world1 ''r1'' = Some request1"
  by (simp add: world1_def)

lemma temp_path_request1: "getitem request1 ''temp_path'' = Inr (PStr ''/srv/temp/20250101_120000_r1.jpg'')"
  by (simp add: request1_def getitem_def)

text \<open>
  C2. For an existing record, \<open>update_request\<close> succeeds and the record agrees with its
  prior value on every key that the update does not name: partial-update semantics.
\<close>

theorem update_request_partial:
  assumes "requests w request_id = Some d"
  shows "snd (update_request w request_id kwargs) = True \<and>
         (\<exists>d'. requests (fst (update_request w request_id kwargs)) request_id = Some d' \<and>
               (\<forall>k. k \<notin> fst ` set kwargs \<longrightarrow> map_of d' k = map_of d k))"
  using assms by (simp add: update_request_def map_of_setitems)

theorem update_request_partial_witness:
  "requests world1 ''r1'' = Some request1 \<and>
   snd (update_request world1 ''r1''
          [(''status'', PStr ''uploaded_to_cloud''), (''cloud_path'', PStr ''20250101_120000_r1.jpg'')]) = True \<and>
   (\<exists>d'. requests (fst (update_request world1 ''r1''
          [(''status'', PStr ''uploaded_to_cloud''), (''cloud_path'', PStr ''20250101_120000_r1.jpg'')])) ''r1''
            = Some d' \<and>
         map_of d' ''temp_path'' = Some (PStr ''/srv/temp/20250101_120000_r1.jpg''))"
proof -
  let ?kw = "[(''status'', PStr ''uploaded_to_cloud''), (''cloud_path'', PStr ''20250101_120000_r1.jpg'')]"
  have n: "''temp_path'' \<notin> fst ` set ?kw"
    by simp
  have t: "map_of request1 ''temp_path'' = Some (PStr ''/srv/temp/20250101_120000_r1.jpg'')"
    by (simp add: request1_def)
  from update_request_partial [OF requests_world1, of ?kw]
  obtain d' where r: "snd (update_request world1 ''r1'' ?kw) = True"
     and d: "requests (fst (update_request world1 ''r1'' ?kw)) ''r1'' = Some d'"
     and k: "\<forall>k. k \<notin> fst ` set ?kw \<longrightarrow> map_of d' k = map_of request1 k"
    by blast
  from k n t have "map_of d' ''temp_path'' = Some (PStr ''/srv/temp/20250101_120000_r1.jpg'')"
    by metis
  with r d requests_world1 show ?thesis by blast
qed

subsection \<open>clean\_temp\_file\<close>

lemma clean_temp_file_set:
  assumes "requests w rid = Some d" and "getitem d ''temp_path'' = Inr (PStr p)" and "p \<noteq> []"
  shows "clean_temp_file w rid =
           (if p \<in> dom (files w)
            then (if p \<in> locked w then (w, Inr False)
                  else (w\<lparr>files := (files w)(p := None)\<rparr>, Inr True))
            else (w, Inr True))"
  using assms getitem_nonempty[OF assms(2)]
  by (simp add: clean_temp_file_def get_request_def)

lemma clean_temp_file_unset:
  assumes "requests w rid = Some d" and "getitem d ''temp_path'' = Inr tp" and "\<not> truthy tp"
  shows "clean_temp_file w rid = (w, Inr False)"
  using assms getitem_nonempty[OF assms(2)]
  by (simp add: clean_temp_file_def get_request_def)

lemma clean_temp_file_unknown:
  "requests w rid = None \<Longrightarrow> clean_temp_file w rid = (w, Inr False)"
  by (simp add: clean_temp_file_def get_request_def)

lemma clean_temp_file_requests: "requests (fst (clean_temp_file w rid)) = requests w"
  by (simp add: clean_temp_file_def get_request_def split: option.splits sum.splits pyval.splits)


lemma clean_temp_file_twice:
  "clean_temp_file (fst (clean_temp_file w rid)) rid = clean_temp_file w rid"
proof (cases "requests w rid")
  case None
  then show ?thesis by (simp add: clean_temp_file_unknown)
next
  case (Some d)
  show ?thesis
  proof (cases "d = []")
    case True
    with Some show ?thesis by (simp add: clean_temp_file_def get_request_def)
  next
    case False
    show ?thesis
    proof (cases "getitem d ''temp_path''")
      case (Inl e)
      with Some False show ?thesis by (simp add: clean_temp_file_def get_request_def)
    next
      case (Inr tp)
      show ?thesis
      proof (cases tp)
        case PNone
        with Some Inr show ?thesis by (simp add: clean_temp_file_unset)
      next
        case (PBool b)
        with Some Inr False show ?thesis by (simp add: clean_temp_file_def get_request_def)
      next
        case (PStr p)
        show ?thesis
        proof (cases "p = []")
          case True
          with Some Inr PStr show ?thesis by (simp add: clean_temp_file_unset)
        next
          case nonempty: False
          from Some Inr PStr nonempty
          have a: "\<And>w'. requests w' = requests w \<Longrightarrow> clean_temp_file w' rid =
              (if p \<in> dom (files w')
               then (if p \<in> locked w' then (w', Inr False)
                     else (w'\<lparr>files := (files w')(p := None)\<rparr>, Inr True))
               else (w', Inr True))"
            by (intro clean_temp_file_set[where d = d]) simp_all
          show ?thesis
            by (simp add: a clean_temp_file_requests)
        qed
      qed
    qed
  qed
qed

text \<open>
  C1, as the code has it. A second call in a row returns what the first returned and
  changes nothing more, so the file is removed at most once. For a record whose
  \<open>temp_path\<close> is a non-empty path, the call returns \<open>True\<close> when it removes the file and
  also when the file is missing from disk (already clean). For a record whose
  \<open>temp_path\<close> was never set (\<open>None\<close>) and for an unknown identifier the call changes
  nothing and returns \<open>False\<close>; it does not raise.
\<close>

theorem clean_temp_file_idempotent:
  "clean_temp_file (fst (clean_temp_file w rid)) rid = clean_temp_file w rid \<and>
   (\<forall>d p. requests w rid = Some d \<and> getitem d ''temp_path'' = Inr (PStr p) \<and> p \<noteq> [] \<longrightarrow>
      (p \<in> dom (files w) \<and> p \<notin> locked w \<longrightarrow>
         clean_temp_file w rid = (w\<lparr>files := (files w)(p := None)\<rparr>, Inr True)) \<and>
      (p \<notin> dom (files w) \<longrightarrow> clean_temp_file w rid = (w, Inr True))) \<and>
   (\<forall>d. requests w rid = Some d \<and> getitem d ''temp_path'' = Inr PNone \<longrightarrow>
      clean_temp_file w rid = (w, Inr False)) \<and>
   (requests w rid = None \<longrightarrow> clean_temp_file w rid = (w, Inr False))"
  by (auto simp: clean_temp_file_twice clean_temp_file_set clean_temp_file_unset
        clean_temp_file_unknown)

theorem clean_temp_file_idempotent_witness:
  "requests world1 ''r1'' = Some request1 \<and>
   getitem request1 ''temp_path'' = Inr (PStr ''/srv/temp/20250101_120000_r1.jpg'') \<and>
   ''/srv/temp/20250101_120000_r1.jpg'' \<in> dom (files world1) \<and> ''/srv/temp/20250101_120000_r1.jpg'' \<notin> locked world1 \<and>
   snd (clean_temp_file world1 ''r1'') = Inr True \<and>
   files (fst (clean_temp_file world1 ''r1'')) ''/srv/temp/20250101_120000_r1.jpg'' = None \<and>
   clean_temp_file (fst (clean_temp_file world1 ''r1'')) ''r1'' = clean_temp_file world1 ''r1''"
proof -
  have f: "''/srv/temp/20250101_120000_r1.jpg'' \<in> dom (files world1)" "''/srv/temp/20250101_120000_r1.jpg'' \<notin> locked world1"
    by (simp_all add: world1_def)
  from clean_temp_file_idempotent [of world1 "''r1''"] requests_world1 temp_path_request1 f
  have "clean_temp_file world1 ''r1'' =
          (world1\<lparr>files := (files world1)(''/srv/temp/20250101_120000_r1.jpg'' := None)\<rparr>, Inr True)"
    and "clean_temp_file (fst (clean_temp_file world1 ''r1'')) ''r1'' = clean_temp_file world1 ''r1''"
    by blast+
  with requests_world1 temp_path_request1 f show ?thesis by simp
qed

text \<open>
  The claim as written, that a record whose \<open>temp_path\<close> was never set gives a no-op
  success, fails on a record that has just been created: the call returns \<open>False\<close>.
\<close>

theorem clean_temp_file_unset_counterexample:
  "snd (clean_temp_file (fst (create_request world0 ''r1'')) ''r1'') = Inr False"
  by (simp add: clean_temp_file_def get_request_def create_request_def Let_def
        new_request_def getitem_def)

text \<open>
  C10. \<open>clean_temp_file\<close> never assigns to a record: whatever it returns, the table of
  requests is the one it started from, so no call resets a \<open>temp_path\<close>, and
  \<open>get_request\<close> returns for every identifier what it returned before. Whenever the
  call succeeds (returns \<open>True\<close>, the file removed or already missing), the record still
  holds its non-empty path and no file exists under that path: \<open>get_request\<close> returns
  the stale path.
\<close>

theorem clean_temp_file_never_clears:
  "requests (fst (clean_temp_file w rid)) = requests w \<and>
   (\<forall>r. get_request (fst (clean_temp_file w rid)) r = get_request w r) \<and>
   (snd (clean_temp_file w rid) = Inr True \<longrightarrow>
      (\<exists>d p. get_request (fst (clean_temp_file w rid)) rid = Some d \<and>
             getitem d ''temp_path'' = Inr (PStr p) \<and> p \<noteq> [] \<and>
             files (fst (clean_temp_file w rid)) p = None))"
proof (intro conjI allI impI)
  show "requests (fst (clean_temp_file w rid)) = requests w"
    by (rule clean_temp_file_requests)
next
  fix r
  show "get_request (fst (clean_temp_file w rid)) r = get_request w r"
    by (simp add: get_request_def clean_temp_file_requests)
next
  assume "snd (clean_temp_file w rid) = Inr True"
  then show "\<exists>d p. get_request (fst (clean_temp_file w rid)) rid = Some d \<and>
             getitem d ''temp_path'' = Inr (PStr p) \<and> p \<noteq> [] \<and>
             files (fst (clean_temp_file w rid)) p = None"
    by (auto simp: clean_temp_file_def get_request_def
          split: option.splits sum.splits pyval.splits if_splits)
qed

theorem clean_temp_file_never_clears_witness:
  "snd (clean_temp_file world1 ''r1'') = Inr True \<and>
   files world1 ''/srv/temp/20250101_120000_r1.jpg'' = Some ''JPEG'' \<and>
   files (fst (clean_temp_file world1 ''r1'')) ''/srv/temp/20250101_120000_r1.jpg'' = None \<and>
   get_request (fst (clean_temp_file world1 ''r1'')) ''r1'' = Some request1 \<and>
   getitem request1 ''temp_path'' = Inr (PStr ''/srv/temp/20250101_120000_r1.jpg'') \<and>
   snd (clean_temp_file (fst (clean_temp_file world1 ''r1'')) ''r1'') = Inr True \<and>
   get_request (fst (clean_temp_file (fst (clean_temp_file world1 ''r1'')) ''r1'')) ''r1''
     = Some request1"
proof -
  have f: "''/srv/temp/20250101_120000_r1.jpg'' \<in> dom (files world1)"
      "''/srv/temp/20250101_120000_r1.jpg'' \<notin> locked world1"
      "files world1 ''/srv/temp/20250101_120000_r1.jpg'' = Some ''JPEG''"
    by (simp_all add: world1_def)
  have n: "''/srv/temp/20250101_120000_r1.jpg'' \<noteq> []" by simp
  have c: "clean_temp_file world1 ''r1'' =
          (world1\<lparr>files := (files world1)(''/srv/temp/20250101_120000_r1.jpg'' := None)\<rparr>, Inr True)"
    using clean_temp_file_set[OF requests_world1 temp_path_request1 n] f by simp
  have g: "get_request world1 ''r1'' = Some request1"
    by (simp add: get_request_def requests_world1)
  from clean_temp_file_never_clears [of world1 "''r1''"] g
  have k1: "get_request (fst (clean_temp_file world1 ''r1'')) ''r1'' = Some request1"
    by simp
  from clean_temp_file_never_clears [of "fst (clean_temp_file world1 ''r1'')" "''r1''"] k1
  have k2: "get_request (fst (clean_temp_file (fst (clean_temp_file world1 ''r1'')) ''r1'')) ''r1''
     = Some request1"
    by simp
  have t: "snd (clean_temp_file (fst (clean_temp_file world1 ''r1'')) ''r1'') = Inr True"
    using clean_temp_file_twice[of world1 "''r1''"] c by simp
  show ?thesis
    using c f k1 k2 t temp_path_request1 by simp
qed

subsection \<open>create\_request\<close>




section \<open>Properties of process\_image\<close>

lemma receive_image_ok:
  assumes "save_ok e"
  shows "receive_image a e w picture =
     (w\<lparr>requests := (requests w)(uuid4 e \<mapsto>
           [(''status'', PStr ''image_received''),
            (''temp_path'', PStr (temp_dir a @ ''/'' @ strftime_now e @ ''_'' @ uuid4 e @ ''.jpg'')),
            (''cloud_path'', PNone),
            (''llm_description'', PNone),
            (''user_feedback'', PNone),
            (''user_note'', PNone)]),
         files := (files w)(temp_dir a @ ''/'' @ strftime_now e @ ''_'' @ uuid4 e @ ''.jpg''
                              \<mapsto> picture)\<rparr>,
      Inr (uuid4 e, strftime_now e @ ''_'' @ uuid4 e @ ''.jpg'',
           temp_dir a @ ''/'' @ strftime_now e @ ''_'' @ uuid4 e @ ''.jpg''))"
  using assms
  by (simp add: receive_image_def create_request_def update_request_def Let_def new_request_def)

lemma receive_image_raises:
  "\<not> save_ok e \<Longrightarrow> snd (receive_image a e w picture) = Inl OSError"
  by (simp add: receive_image_def create_request_def Let_def)

lemma upload_step_fails:
  assumes "\<not> put_ok e"
  shows "upload_step a e w rid fn tp = (w, None)"
  using assms
  by (simp add: upload_step_def upload_image_def Let_def split: option.splits)

lemma upload_step_ok:
  assumes "put_ok e" and "files w tp = Some picture" and "fn \<noteq> []"
      and "requests w rid = Some d"
  shows "upload_step a e w rid fn tp =
           (w\<lparr>objects := (objects w)((namespace (oracle_storage a),
                                       bucket_name (oracle_storage a), fn) \<mapsto> picture),
              requests := (requests w)(rid \<mapsto>
                 setitems d [(''status'', PStr ''uploaded_to_cloud''),
                             (''cloud_path'', PStr fn)])\<rparr>,
            Some fn)"
  using assms
  by (simp add: upload_step_def upload_image_def update_request_def Let_def)

lemma cloud_storage_in_message:
  "sublist ''cloud storage'' ''Failed to upload image to cloud storage.''"
  unfolding sublist_def
  by (rule exI[of _ "''Failed to upload image to ''"], rule exI[of _ "''.''"]) simp

lemma world1_received: "receive_image app0 env_storage_down world0 ''JPEG'' =
    (world1, Inr (''r1'', ''20250101_120000_r1.jpg'', ''/srv/temp/20250101_120000_r1.jpg''))"
  by (simp add: receive_image_ok env_storage_down_def app0_def world0_def world1_def request1_def)

text \<open>
  C5. When the upload step of \<open>process_image\<close> fails, the message returned to the user
  contains \<open>cloud storage\<close>, the record is at \<open>image_received\<close> with \<open>cloud_path\<close> still
  \<open>None\<close>, its \<open>temp_path\<close> is still set and the temporary file is still on disk with the
  image in it: nothing is cleaned up before returning, and nothing was stored remotely.
\<close>

theorem process_image_upload_fails:
  assumes "receive_image a e w picture = (w1, Inr (rid, fn, tp))"
      and "snd (upload_step a e w1 rid fn tp) = None"
  shows "process_image a e w (Some picture) =
           (w1, Return (PNone, PStr ''Failed to upload image to cloud storage.'')) \<and>
         sublist ''cloud storage'' ''Failed to upload image to cloud storage.'' \<and>
         (\<exists>d. requests w1 rid = Some d \<and>
              getitem d ''status'' = Inr (PStr ''image_received'') \<and>
              getitem d ''cloud_path'' = Inr PNone \<and>
              getitem d ''temp_path'' = Inr (PStr tp)) \<and>
         files w1 tp = Some picture \<and>
         objects w1 = objects w"
proof -
  have s: "save_ok e"
    using assms(1) receive_image_raises[of e a w picture] by (cases "save_ok e") auto
  note r = assms(1)[unfolded receive_image_ok[OF s]]
  from r have rid: "rid = uuid4 e" and fn: "fn = strftime_now e @ ''_'' @ uuid4 e @ ''.jpg''"
    and tp: "tp = temp_dir a @ ''/'' @ fn" and f: "files w1 tp = Some picture"
    and o: "objects w1 = objects w"
    by auto
  from r have d: "requests w1 rid =
      Some [(''status'', PStr ''image_received''), (''temp_path'', PStr tp),
            (''cloud_path'', PNone), (''llm_description'', PNone),
            (''user_feedback'', PNone), (''user_note'', PNone)]"
    by auto
  have "\<not> put_ok e"
  proof
    assume "put_ok e"
    from upload_step_ok[OF this f _ d, of fn a] fn assms(2) show False by simp
  qed
  then have u: "upload_step a e w1 rid fn tp = (w1, None)"
    by (rule upload_step_fails)
  have p: "process_image a e w (Some picture) =
           (w1, Return (PNone, PStr ''Failed to upload image to cloud storage.''))"
    by (simp add: process_image_def assms(1) u)
  from d have g: "\<exists>d. requests w1 rid = Some d \<and>
              getitem d ''status'' = Inr (PStr ''image_received'') \<and>
              getitem d ''cloud_path'' = Inr PNone \<and>
              getitem d ''temp_path'' = Inr (PStr tp)"
    by (simp add: getitem_def)
  from p g f o cloud_storage_in_message show ?thesis by blast
qed

theorem process_image_upload_fails_witness:
  "receive_image app0 env_storage_down world0 ''JPEG'' =
     (world1, Inr (''r1'', ''20250101_120000_r1.jpg'', ''/srv/temp/20250101_120000_r1.jpg'')) \<and>
   snd (upload_step app0 env_storage_down world1 ''r1'' ''20250101_120000_r1.jpg''
          ''/srv/temp/20250101_120000_r1.jpg'') = None \<and>
   process_image app0 env_storage_down world0 (Some ''JPEG'') =
     (world1, Return (PNone, PStr ''Failed to upload image to cloud storage.'')) \<and>
   files world1 ''/srv/temp/20250101_120000_r1.jpg'' = Some ''JPEG''"
proof -
  have u: "snd (upload_step app0 env_storage_down world1 ''r1'' ''20250101_120000_r1.jpg''
          ''/srv/temp/20250101_120000_r1.jpg'') = None"
    by (simp add: upload_step_fails env_storage_down_def)
  from process_image_upload_fails [OF world1_received u] world1_received u
  show ?thesis by blast
qed

subsection \<open>Failure of the description step\<close>

lemma dict_get_missing: "k \<notin> fst ` set d \<Longrightarrow> dict_get d k dflt = dflt"
  by (simp add: dict_get_def map_of_eq_None_iff[THEN iffD2])

lemma analyze_image_reply:
  assumes "files w p = Some content"
  shows "analyze_image self w srv p =
           (case srv (analyze_image_request self p content) of
              ConnectionError \<Rightarrow> PNone
            | Response status body \<Rightarrow>
                if status = 200 then
                  (case body of NotJson \<Rightarrow> PNone | JsonOther \<Rightarrow> PNone
                   | JsonObject result \<Rightarrow> dict_get result ''output'' (PStr []))
                else PNone)"
  using assms by (simp add: analyze_image_def)

lemma analyze_step_fails:
  "\<not> truthy (analyze_image (llm a) w (server e) tp) \<Longrightarrow>
   analyze_step a e w rid tp = (w, Return (PNone, PStr ''Failed to analyze image.''))"
  by (simp add: analyze_step_def Let_def)

lemma flow_after_upload:
  assumes "receive_image a e w picture = (w1, Inr (rid, fn, tp))"
      and "upload_step a e w1 rid fn tp = (w2, Some obj)"
  shows "files w2 tp = Some picture \<and>
         requests w2 rid =
           Some [(''status'', PStr ''uploaded_to_cloud''), (''temp_path'', PStr tp),
                 (''cloud_path'', PStr obj), (''llm_description'', PNone),
                 (''user_feedback'', PNone), (''user_note'', PNone)] \<and>
         obj = fn \<and>
         objects w2 (namespace (oracle_storage a), bucket_name (oracle_storage a), obj) = Some picture"
proof -
  have s: "save_ok e"
    using assms(1) receive_image_raises[of e a w picture] by (cases "save_ok e") auto
  note r = assms(1)[unfolded receive_image_ok[OF s]]
  from r have fn: "fn = strftime_now e @ ''_'' @ uuid4 e @ ''.jpg''"
    and f: "files w1 tp = Some picture"
    by auto
  from r have d: "requests w1 rid =
      Some [(''status'', PStr ''image_received''), (''temp_path'', PStr tp),
            (''cloud_path'', PNone), (''llm_description'', PNone),
            (''user_feedback'', PNone), (''user_note'', PNone)]"
    by auto
  have p: "put_ok e"
    using assms(2) upload_step_fails[of e a w1 rid fn tp] by (cases "put_ok e") auto
  have n: "fn \<noteq> []" using fn by simp
  from assms(2)[unfolded upload_step_ok[OF p f n d]] f
  show ?thesis by auto
qed

lemma world1_received_any:
  assumes "uuid4 e = ''r1''" and "strftime_now e = ''20250101_120000''" and "save_ok e"
  shows "receive_image app0 e world0 ''JPEG'' =
    (world1, Inr (''r1'', ''20250101_120000_r1.jpg'', ''/srv/temp/20250101_120000_r1.jpg''))"
  using assms
  by (simp add: receive_image_ok app0_def world0_def world1_def request1_def)

lemma world2_uploaded:
  assumes "put_ok e"
  shows "upload_step app0 e world1 ''r1'' ''20250101_120000_r1.jpg''
           ''/srv/temp/20250101_120000_r1.jpg'' = (world2, Some ''20250101_120000_r1.jpg'')"
proof -
  have f: "files world1 ''/srv/temp/20250101_120000_r1.jpg'' = Some ''JPEG''"
    by (simp add: world1_def)
  have n: "''20250101_120000_r1.jpg'' \<noteq> []" by simp
  show ?thesis
    unfolding upload_step_ok[OF assms f n requests_world1]
    by (simp add: world1_def world2_def request1_def request2_def app0_def)
qed

lemma world3_analyzed:
  "process_image app0 env_ok world0 (Some ''JPEG'') = (world3, Return (PStr ''r1'', PStr ''a cat''))"
proof -
  have r: "receive_image app0 env_ok world0 ''JPEG'' =
    (world1, Inr (''r1'', ''20250101_120000_r1.jpg'', ''/srv/temp/20250101_120000_r1.jpg''))"
    by (rule world1_received_any) (simp_all add: env_ok_def env_storage_down_def)
  have u: "upload_step app0 env_ok world1 ''r1'' ''20250101_120000_r1.jpg''
           ''/srv/temp/20250101_120000_r1.jpg'' = (world2, Some ''20250101_120000_r1.jpg'')"
    by (rule world2_uploaded) (simp add: env_ok_def)
  have a: "analyze_image (llm app0) world2 (server env_ok) ''/srv/temp/20250101_120000_r1.jpg''
             = PStr ''a cat''"
    by (simp add: analyze_image_def world2_def env_ok_def dict_get_def)
  have s: "analyze_step app0 env_ok world2 ''r1'' ''/srv/temp/20250101_120000_r1.jpg''
             = (world3, Return (PStr ''r1'', PStr ''a cat''))"
    unfolding analyze_step_def a
    by (simp add: Let_def update_request_def world2_def world3_def request2_def request3_def)
  show ?thesis
    by (simp add: process_image_def r u s)
qed

text \<open>
  C6. The description client returns \<open>None\<close>, never a partial text, when the post
  raises and when the status is not 200 (so for every status outside the success class),
  and the empty string when a 200 response is a JSON object without the \<open>output\<close> field.
  Whenever the client's result is \<open>None\<close> or empty, \<open>process_image\<close> returns the message
  \<open>Failed to analyze image.\<close> and leaves the record at \<open>uploaded_to_cloud\<close>, its
  description unset.
\<close>

theorem analysis_failure:
  "(\<forall>content. files w p = Some content \<longrightarrow>
      (srv (analyze_image_request self p content) = ConnectionError \<longrightarrow>
         analyze_image self w srv p = PNone) \<and>
      (\<forall>st b. srv (analyze_image_request self p content) = Response st b \<and> st \<noteq> 200 \<longrightarrow>
         analyze_image self w srv p = PNone) \<and>
      (\<forall>res. srv (analyze_image_request self p content) = Response 200 (JsonObject res) \<and>
             ''output'' \<notin> fst ` set res \<longrightarrow>
         analyze_image self w srv p = PStr [])) \<and>
   (\<forall>w1 rid fn tp w2 obj.
      receive_image a e w0 picture = (w1, Inr (rid, fn, tp)) \<and>
      upload_step a e w1 rid fn tp = (w2, Some obj) \<and>
      \<not> truthy (analyze_image (llm a) w2 (server e) tp) \<longrightarrow>
        process_image a e w0 (Some picture) =
          (w2, Return (PNone, PStr ''Failed to analyze image.'')) \<and>
        (\<exists>d. requests w2 rid = Some d \<and>
             getitem d ''status'' = Inr (PStr ''uploaded_to_cloud'') \<and>
             getitem d ''cloud_path'' = Inr (PStr obj) \<and>
             getitem d ''llm_description'' = Inr PNone))"
proof (intro conjI allI impI)
  fix content assume "files w p = Some content"
    and "srv (analyze_image_request self p content) = ConnectionError"
  then show "analyze_image self w srv p = PNone"
    by (simp add: analyze_image_reply)
next
  fix content st b
  assume "files w p = Some content"
    and "srv (analyze_image_request self p content) = Response st b \<and> st \<noteq> 200"
  then show "analyze_image self w srv p = PNone"
    by (simp add: analyze_image_reply)
next
  fix content res
  assume "files w p = Some content"
    and "srv (analyze_image_request self p content) = Response 200 (JsonObject res) \<and>
         ''output'' \<notin> fst ` set res"
  then show "analyze_image self w srv p = PStr []"
    by (simp add: analyze_image_reply dict_get_missing)
next
  fix w1 rid fn tp w2 obj
  assume h: "receive_image a e w0 picture = (w1, Inr (rid, fn, tp)) \<and>
      upload_step a e w1 rid fn tp = (w2, Some obj) \<and>
      \<not> truthy (analyze_image (llm a) w2 (server e) tp)"
  then show "process_image a e w0 (Some picture) =
          (w2, Return (PNone, PStr ''Failed to analyze image.''))"
    by (simp add: process_image_def analyze_step_fails)
  from h flow_after_upload[of a e w0 picture w1 rid fn tp w2 obj]
  show "\<exists>d. requests w2 rid = Some d \<and>
             getitem d ''status'' = Inr (PStr ''uploaded_to_cloud'') \<and>
             getitem d ''cloud_path'' = Inr (PStr obj) \<and>
             getitem d ''llm_description'' = Inr PNone"
    by (simp add: getitem_def)
qed

theorem analysis_failure_witness:
  "receive_image app0 env_llm_down world0 ''JPEG'' =
     (world1, Inr (''r1'', ''20250101_120000_r1.jpg'', ''/srv/temp/20250101_120000_r1.jpg'')) \<and>
   upload_step app0 env_llm_down world1 ''r1'' ''20250101_120000_r1.jpg''
     ''/srv/temp/20250101_120000_r1.jpg'' = (world2, Some ''20250101_120000_r1.jpg'') \<and>
   analyze_image (llm app0) world2 (server env_llm_down) ''/srv/temp/20250101_120000_r1.jpg''
     = PNone \<and>
   analyze_image (llm app0) world2 (server env_no_output) ''/srv/temp/20250101_120000_r1.jpg''
     = PStr [] \<and>
   process_image app0 env_llm_down world0 (Some ''JPEG'') =
     (world2, Return (PNone, PStr ''Failed to analyze image.'')) \<and>
   getitem request2 ''status'' = Inr (PStr ''uploaded_to_cloud'')"
proof -
  let ?tp = "''/srv/temp/20250101_120000_r1.jpg''"
  have r: "receive_image app0 env_llm_down world0 ''JPEG'' =
    (world1, Inr (''r1'', ''20250101_120000_r1.jpg'', ?tp))"
    by (rule world1_received_any) (simp_all add: env_llm_down_def env_storage_down_def)
  have u: "upload_step app0 env_llm_down world1 ''r1'' ''20250101_120000_r1.jpg'' ?tp
             = (world2, Some ''20250101_120000_r1.jpg'')"
    by (rule world2_uploaded) (simp add: env_llm_down_def)
  have f: "files world2 ?tp = Some ''JPEG''"
    by (simp add: world2_def)
  have s1: "server env_llm_down (analyze_image_request (llm app0) ?tp ''JPEG'') = Response 503 NotJson \<and> (503::nat) \<noteq> 200"
    by (simp add: env_llm_down_def)
  have s2: "server env_no_output (analyze_image_request (llm app0) ?tp ''JPEG'')
              = Response 200 (JsonObject [(''detail'', PStr ''a cat'')]) \<and>
            ''output'' \<notin> fst ` set [(''detail'', PStr ''a cat'')]"
    by (simp add: env_no_output_def)
  note t1 = analysis_failure [where w = world2 and p = ?tp and srv = "server env_llm_down"
               and self = "llm app0" and a = app0 and e = env_llm_down and ?w0.0 = world0
               and picture = "''JPEG''"]
  note t2 = analysis_failure [where w = world2 and p = ?tp and srv = "server env_no_output"
               and self = "llm app0" and a = app0 and e = env_llm_down and ?w0.0 = world0
               and picture = "''JPEG''"]
  from t1 f s1 have a1: "analyze_image (llm app0) world2 (server env_llm_down) ?tp = PNone"
    by blast
  from t2 f s2 have a2: "analyze_image (llm app0) world2 (server env_no_output) ?tp = PStr []"
    by blast
  from a1 have nt: "\<not> truthy (analyze_image (llm app0) world2 (server env_llm_down) ?tp)"
    by simp
  from t1 r u nt have p: "process_image app0 env_llm_down world0 (Some ''JPEG'') =
     (world2, Return (PNone, PStr ''Failed to analyze image.''))"
    by blast
  have g: "getitem request2 ''status'' = Inr (PStr ''uploaded_to_cloud'')"
    by (simp add: request2_def getitem_def)
  from r u a1 a2 p g show ?thesis by blast
qed

section \<open>The write-once fields\<close>






















section \<open>The request of the description client\<close>

text \<open>
  C7, as the code has it. Every request that \<open>analyze_image\<close> posts is a multipart form
  with the fields \<open>prompt\<close>, \<open>system_prompt\<close>, \<open>max_tokens\<close> (the text \<open>4000\<close>),
  \<open>temperature\<close> (the text \<open>0.5\<close>) and \<open>images\<close>, and the header \<open>X-API-Key\<close>. The
  constructor takes only the endpoint and the key from the environment; the prompt and
  the system prompt are the two texts written in \<open>analyze_image\<close>, the same for every
  client.
\<close>

theorem describe_request_fixed:
  "form (analyze_image_request (LLMService environ) image_path content) =
     [(''prompt'', Text prompt),
      (''system_prompt'', Text system_prompt),
      (''max_tokens'', Text ''4000''),
      (''temperature'', Text ''0.5''),
      (''images'', FilePart content (basename image_path) ''image/png'')] \<and>
   headers (analyze_image_request (LLMService environ) image_path content) =
     [(''X-API-Key'', getenv environ ''LLM_API_KEY'' [])] \<and>
   url (analyze_image_request (LLMService environ) image_path content) =
     getenv environ ''LLM_API_URL'' ''https://api.example.com/analyze'' \<and>
   analyze_image self w srv image_path =
     (case files w image_path of
        None \<Rightarrow> PNone
      | Some content \<Rightarrow>
          analyze_image self w (\<lambda>_. srv (analyze_image_request self image_path content))
            image_path)"
  by (simp add: analyze_image_request_def LLMService_def analyze_image_def split: option.split)

text \<open>
  The claim as written, that the two prompts can be set when the client is constructed,
  fails: no environment gives a client whose request carries another prompt or another
  system prompt.
\<close>

theorem prompts_configurable_counterexample:
  "\<not> (\<exists>environ image_path content.
        map_of (form (analyze_image_request (LLMService environ) image_path content)) ''prompt''
          \<noteq> Some (Text prompt) \<or>
        map_of (form (analyze_image_request (LLMService environ) image_path content))
          ''system_prompt'' \<noteq> Some (Text system_prompt))"
  by (simp add: analyze_image_request_def)

section \<open>The metadata object\<close>

subsection \<open>Decoding what \<open>json.dumps\<close> wrote\<close>


















subsection \<open>What \<open>save_feedback\<close> writes\<close>














end
